theory Spec2Isabelle
  imports Main
begin

section \<open>QHangups main widget: session lifecycle, tray gestures, event routing\<close>

text \<open>
  A shallow embedding of \<^verbatim>\<open>QHangupsMainWidget\<close> (\<^verbatim>\<open>qhangups/qhangups.py\<close>).
  The widget's attributes are a record, each method is a function from the widget to
  the widget it leaves behind, an exception is a \<^verbatim>\<open>Raise\<close> result carrying the
  widget as it stood when the exception left the method, and every call the widget
  makes to a collaborator (Qt dialogs, the asyncio scheduler, the authentication
  library) is appended to the \<^verbatim>\<open>effects\<close> log in the order the source makes it.
  A handler runs to its end before the next event is looked at, as on the single
  cooperative scheduler the application uses. \<^verbatim>\<open>about\<close>,
  \<^verbatim>\<open>retranslateUi\<close>, \<^verbatim>\<open>changeEvent\<close> and \<^verbatim>\<open>main\<close> touch none of the modelled
  attributes and are left out.
\<close>

subsection \<open>Values handed between the widget and the authentication library\<close>

type_synonym conv_id = string

text \<open>
  The Python values that cross the boundary of \<^verbatim>\<open>login\<close>: \<^verbatim>\<open>False\<close>, the
  \<^verbatim>\<open>(email, password)\<close> tuple, a string (the PIN) and the cookie dictionary.
\<close>

datatype pyval =
    PyFalse
  | PyCreds string string
  | PyStr string
  | PyCookies "(string \<times> string) list"

text \<open>Python truth value testing, as \<^verbatim>\<open>if cookies:\<close> applies it.\<close>

fun truthy :: "pyval \<Rightarrow> bool" where
  "truthy PyFalse = False"
| "truthy (PyCreds e p) = True"
| "truthy (PyStr s) = (s \<noteq> [])"
| "truthy (PyCookies d) = (d \<noteq> [])"

datatype error = AttributeError | GoogleAuthError | OtherException string

text \<open>
  What the user answers to the three \<^verbatim>\<open>QInputDialog.getText\<close> prompts: the text
  and the \<^verbatim>\<open>ok\<close> flag (\<^verbatim>\<open>False\<close> when the prompt is cancelled).
\<close>

record prompts =
  email_reply :: "string \<times> bool"
  password_reply :: "string \<times> bool"
  pin_reply :: "string \<times> bool"

definition get_credentials :: "prompts \<Rightarrow> pyval" where
  "get_credentials u =
     (case email_reply u of (email, ok) \<Rightarrow>
        if ok then
          (case password_reply u of (password, ok') \<Rightarrow>
             if ok' then PyCreds email password else PyFalse)
        else PyFalse)"

definition get_pin :: "prompts \<Rightarrow> pyval" where
  "get_pin u = (case pin_reply u of (pin, ok) \<Rightarrow> if ok then PyStr pin else PyFalse)"

text \<open>
  \<^verbatim>\<open>hangups.auth.get_auth(get_credentials, get_pin, cookies_path)\<close> belongs to an
  external library. It is a parameter of the model: a strategy that may call the two
  callbacks, in any order and any number of times, looking at what they return, and
  that ends by returning a value or raising.
\<close>

datatype auth_outcome = AuthReturns pyval | AuthRaises error

datatype auth_flow =
    Finish auth_outcome
  | CallCredentials "pyval \<Rightarrow> auth_flow"
  | CallPin "pyval \<Rightarrow> auth_flow"

datatype callback = CredentialsCallback | PinCallback

text \<open>
  Running the strategy against the widget's callbacks gives the outcome and the
  callbacks that were called (the prompts that were shown), in call order.
\<close>

primrec get_auth :: "auth_flow \<Rightarrow> prompts \<Rightarrow> auth_outcome \<times> callback list" where
  "get_auth (Finish out) u = (out, [])"
| "get_auth (CallCredentials k) u =
     (case get_auth (k (get_credentials u)) u of
        (out, cs) \<Rightarrow> (out, CredentialsCallback # cs))"
| "get_auth (CallPin k) u =
     (case get_auth (k (get_pin u)) u of
        (out, cs) \<Rightarrow> (out, PinCallback # cs))"

text \<open>
  The user cancelled a prompt that was shown: the credentials were asked for and the
  email or the password prompt was not confirmed, or the PIN was asked for and its
  prompt was not confirmed.
\<close>

definition user_cancelled :: "auth_flow \<Rightarrow> prompts \<Rightarrow> bool" where
  "user_cancelled f u =
     ((CredentialsCallback \<in> set (snd (get_auth f u)) \<and>
        \<not> (snd (email_reply u) \<and> snd (password_reply u))) \<or>
      (PinCallback \<in> set (snd (get_auth f u)) \<and> \<not> snd (pin_reply u)))"

text \<open>
  An outcome that is an abort: neither cookies nor \<^verbatim>\<open>GoogleAuthError\<close>.
\<close>

fun abort_outcome :: "auth_outcome \<Rightarrow> bool" where
  "abort_outcome (AuthReturns v) = (\<not> truthy v)"
| "abort_outcome (AuthRaises e) = (e \<noteq> GoogleAuthError)"

subsection \<open>The objects the widget holds\<close>

datatype observer = ObsOnConnect | ObsOnEvent

text \<open>\<^verbatim>\<open>hangups.Client(cookies)\<close> with the observers of its \<^verbatim>\<open>on_connect\<close> event.\<close>

record client_obj =
  client_cookies :: pyval
  on_connect_observers :: "observer list"

text \<open>The snapshot \<^verbatim>\<open>initial_data\<close> that \<^verbatim>\<open>on_connect\<close> receives.\<close>

record initial_data =
  self_entity :: string
  entities :: "string list"
  conversation_participants :: "string list"
  conversation_states :: "conv_id list"
  sync_timestamp :: nat

record user_list_obj =
  ul_client :: "client_obj option"
  ul_self_entity :: string
  ul_entities :: "string list"
  ul_participants :: "string list"

record conv_list_obj =
  cl_client :: "client_obj option"
  cl_states :: "conv_id list"
  cl_user_list :: "user_list_obj option"
  cl_sync_timestamp :: nat
  on_event_observers :: "observer list"

record notifier_obj =
  nf_conv_list :: "conv_list_obj option"

text \<open>
  \<^verbatim>\<open>QHangupsConversationsList\<close>, the conversation-list dialog. Of the Qt widget only
  its visibility (\<^verbatim>\<open>show\<close>, \<^verbatim>\<open>hide\<close>, \<^verbatim>\<open>isVisible\<close>) is used by the main widget.
\<close>

record conversations_list_obj =
  lst_client :: "client_obj option"
  lst_conv_list :: "conv_list_obj option"
  lst_visible :: bool

text \<open>
  \<^verbatim>\<open>QHangupsConversations\<close>, the message-view dialog with one tab per conversation.
\<close>

record conversations_obj =
  msg_client :: "client_obj option"
  msg_conv_list :: "conv_list_obj option"
  msg_tabs :: "conv_id list"
  msg_current :: "conv_id option"
  msg_visible :: bool

text \<open>
  Modelled from the spec: \<^verbatim>\<open>QHangupsConversations.set_conv_tab\<close> lives in
  \<^verbatim>\<open>qhangups/conversations.py\<close>, which is not among the sources. The specification
  describes the surface as a single instance reused for all conversations, internally
  tab-keyed, whose tab for the conversation id is created on first reference and
  targeted; \<^verbatim>\<open>switch\<close> (true by default) says whether the tab becomes the current one.
\<close>

definition set_conv_tab :: "conv_id \<Rightarrow> bool \<Rightarrow> conversations_obj \<Rightarrow> conversations_obj" where
  "set_conv_tab c switch d =
     (let d' = (if c \<in> set (msg_tabs d) then d else d\<lparr>msg_tabs := msg_tabs d @ [c]\<rparr>)
      in if switch then d'\<lparr>msg_current := Some c\<rparr> else d')"

subsection \<open>Calls to collaborators\<close>

datatype effect =
    EGetAuth string
  | EWarning
  | EConnect client_obj
  | EDisconnect client_obj
  | EPrint string
  | EListShow
  | EListHide
  | ESurfaceNew
  | ESurfaceShow
  | EQuestion
  | ELoopStop
  | EUncaught error

subsection \<open>The widget\<close>

text \<open>
  The attributes of \<^verbatim>\<open>QHangupsMainWidget\<close>. \<^verbatim>\<open>translator\<close> is the language the
  module-level Qt translators have loaded (empty for none). \<^verbatim>\<open>tray_icon_active\<close> is
  true when the tray icon shows \<^verbatim>\<open>iconActive\<close>. \<^verbatim>\<open>icon_doubleclick_timer\<close> is the
  single-shot \<^verbatim>\<open>QTimer\<close>: \<^verbatim>\<open>None\<close> when inactive, the time of its expiry when active.
\<close>

record widget =
  translator :: string
  cookies_path :: string
  hangups_running :: bool
  client :: "client_obj option"
  tray_icon_active :: bool
  startAction_enabled :: bool
  stopAction_enabled :: bool
  conv_list :: "conv_list_obj option"
  user_list :: "user_list_obj option"
  notifier :: "notifier_obj option"
  conversations_dialog :: "conversations_list_obj option"
  messages_dialog :: "conversations_obj option"
  icon_doubleclick_timer :: "nat option"
  effects :: "effect list"

text \<open>
  What the surroundings supply while one handler runs: the clock, Qt's double-click
  interval, the behaviour of the authentication library and of the user at the
  prompts, and the language settings with the translation files that exist.
\<close>

record env =
  now :: nat
  double_click_interval :: nat
  auth :: auth_flow
  user :: prompts
  stored_language :: string
  system_language :: string
  translation_files :: "string list"

datatype res = Done widget | Raise error widget

fun state_of :: "res \<Rightarrow> widget" where
  "state_of (Done s) = s"
| "state_of (Raise e s) = s"

definition emit :: "effect \<Rightarrow> widget \<Rightarrow> widget" where
  "emit e s = s\<lparr>effects := effects s @ [e]\<rparr>"

subsection \<open>The methods\<close>

definition set_language :: "env \<Rightarrow> widget \<Rightarrow> widget" where
  "set_language a s =
     (let language = (if stored_language a = [] then system_language a else stored_language a)
      in if language \<in> set (translation_files a)
         then s\<lparr>translator := language\<rparr>
         else s\<lparr>translator := []\<rparr>)"

definition update_status :: "widget \<Rightarrow> widget" where
  "update_status s =
     (if hangups_running s
      then s\<lparr>tray_icon_active := True, startAction_enabled := False, stopAction_enabled := True\<rparr>
      else s\<lparr>tray_icon_active := False, startAction_enabled := True, stopAction_enabled := False\<rparr>)"

text \<open>\<^verbatim>\<open>__init__\<close>, with \<^verbatim>\<open>create_icon\<close> setting the disabled icon.\<close>

definition init :: "env \<Rightarrow> string \<Rightarrow> widget" where
  "init a path =
     (let s0 = set_language a
           \<lparr>translator = [], cookies_path = path, hangups_running = False, client = None,
            tray_icon_active = False, startAction_enabled = True, stopAction_enabled = True,
            conv_list = None, user_list = None, notifier = None,
            conversations_dialog = None, messages_dialog = None,
            icon_doubleclick_timer = None, effects = []\<rparr>
      in update_status s0)"

text \<open>
  \<^verbatim>\<open>login\<close>: the value returned, or the exception that is not caught, with the widget
  after the call to the library and the warning box.
\<close>

definition login :: "env \<Rightarrow> string \<Rightarrow> widget \<Rightarrow> (error + pyval) \<times> widget" where
  "login a path s =
     (let s1 = emit (EGetAuth path) s
      in case fst (get_auth (auth a) (user a)) of
           AuthReturns cookies \<Rightarrow> (Inr cookies, s1)
         | AuthRaises e \<Rightarrow>
             if e = GoogleAuthError then (Inr PyFalse, emit EWarning s1)
             else (Inl e, s1))"

definition hangups_start :: "env \<Rightarrow> widget \<Rightarrow> res" where
  "hangups_start a s =
     (case login a (cookies_path s) s of
        (Inl e, s1) \<Rightarrow> Raise e s1
      | (Inr cookies, s1) \<Rightarrow>
          if truthy cookies then
            (let c = \<lparr>client_cookies = cookies, on_connect_observers = [ObsOnConnect]\<rparr>;
                 s2 = s1\<lparr>client := Some c\<rparr>;
                 s3 = emit (EConnect c) s2;
                 s4 = s3\<lparr>hangups_running := True\<rparr>
             in Done (update_status s4))
          else Done s1)"

text \<open>
  \<^verbatim>\<open>hangups_stop\<close>: \<^verbatim>\<open>self.client.disconnect()\<close> is evaluated first, and on
  \<^verbatim>\<open>None\<close> the attribute lookup raises before anything is assigned.
\<close>

definition hangups_stop :: "widget \<Rightarrow> res" where
  "hangups_stop s =
     (case client s of
        None \<Rightarrow> Raise AttributeError s
      | Some c \<Rightarrow>
          (let s1 = emit (EDisconnect c) s;
               s2 = s1\<lparr>conv_list := None, user_list := None, notifier := None\<rparr>;
               s3 = s2\<lparr>conversations_dialog := None, messages_dialog := None\<rparr>;
               s4 = s3\<lparr>hangups_running := False, client := None\<rparr>
           in Done (update_status s4)))"

text \<open>\<^verbatim>\<open>settings\<close>; \<^verbatim>\<open>accepted\<close> is the result of \<^verbatim>\<open>dialog.exec_()\<close>.\<close>

definition settings :: "env \<Rightarrow> bool \<Rightarrow> widget \<Rightarrow> res" where
  "settings a accepted s =
     (if accepted then
        (let s1 = set_language a s
         in if hangups_running s1 then
              (case hangups_stop s1 of
                 Raise e s2 \<Rightarrow> Raise e s2
               | Done s2 \<Rightarrow> hangups_start a s2)
            else Done s1)
      else Done s)"

datatype reason = Unknown | Context | DoubleClick | Trigger | MiddleClick

definition icon_activated :: "env \<Rightarrow> reason \<Rightarrow> widget \<Rightarrow> res" where
  "icon_activated a r s =
     (if r = Trigger then
        (if icon_doubleclick_timer s \<noteq> None then
           (let s1 = s\<lparr>icon_doubleclick_timer := None\<rparr>
            in if hangups_running s1 then hangups_stop s1 else hangups_start a s1)
         else Done (s\<lparr>icon_doubleclick_timer := Some (now a + double_click_interval a)\<rparr>))
      else Done s)"

definition icon_doubleclick_timeout :: "widget \<Rightarrow> widget" where
  "icon_doubleclick_timeout s =
     (case conversations_dialog s of
        None \<Rightarrow> s
      | Some d \<Rightarrow>
          if lst_visible d
          then emit EListHide (s\<lparr>conversations_dialog := Some (d\<lparr>lst_visible := False\<rparr>)\<rparr>)
          else emit EListShow (s\<lparr>conversations_dialog := Some (d\<lparr>lst_visible := True\<rparr>)\<rparr>))"

text \<open>
  \<^verbatim>\<open>quit\<close>; \<^verbatim>\<open>yes\<close> is the user's answer to the confirmation box, asked only when
  the session is running and the quit is not forced.
\<close>

definition quit :: "bool \<Rightarrow> bool \<Rightarrow> widget \<Rightarrow> res" where
  "quit force yes s =
     (if hangups_running s then
        (let s1 = (if force then s else emit EQuestion s)
         in if \<not> force \<and> \<not> yes then Done s1
            else (case hangups_stop s1 of
                    Raise e s2 \<Rightarrow> Raise e s2
                  | Done s2 \<Rightarrow> Done (emit ELoopStop s2)))
      else Done (emit ELoopStop s))"

definition new_conversations :: "widget \<Rightarrow> conversations_obj" where
  "new_conversations s =
     \<lparr>msg_client = client s, msg_conv_list = conv_list s, msg_tabs = [],
      msg_current = None, msg_visible = False\<rparr>"

definition open_messages_dialog :: "conv_id \<Rightarrow> bool \<Rightarrow> widget \<Rightarrow> widget" where
  "open_messages_dialog c switch s =
     (let (d, s1) = (case messages_dialog s of
                       None \<Rightarrow> (new_conversations s, emit ESurfaceNew s)
                     | Some d \<Rightarrow> (d, s))
      in emit ESurfaceShow
           (s1\<lparr>messages_dialog := Some ((set_conv_tab c switch d)\<lparr>msg_visible := True\<rparr>)\<rparr>))"

text \<open>
  \<^verbatim>\<open>hangups.UserList(client, ...)\<close> belongs to the chat library. Its constructor
  subscribes the new list to an event of the client it is given, so with no client
  (\<^verbatim>\<open>None\<close>) the attribute lookup raises \<^verbatim>\<open>AttributeError\<close> and no list is built.
\<close>

definition new_user_list :: "client_obj option \<Rightarrow> initial_data \<Rightarrow> error + user_list_obj" where
  "new_user_list c d =
     (case c of
        None \<Rightarrow> Inl AttributeError
      | Some x \<Rightarrow>
          Inr \<lparr>ul_client = Some x, ul_self_entity = self_entity d,
               ul_entities = entities d, ul_participants = conversation_participants d\<rparr>)"

text \<open>
  \<^verbatim>\<open>on_connect\<close>: when the constructor of the user list raises, the exception leaves
  the method before \<^verbatim>\<open>self.user_list\<close> or anything after it is assigned.
\<close>

definition on_connect :: "initial_data \<Rightarrow> widget \<Rightarrow> res" where
  "on_connect d s =
     (let s1 = emit (EPrint ''Connected'') s
      in case new_user_list (client s1) d of
           Inl e \<Rightarrow> Raise e s1
         | Inr ul \<Rightarrow>
             (let s2 = s1\<lparr>user_list := Some ul\<rparr>;
                  cl = \<lparr>cl_client = client s2, cl_states = conversation_states d,
                        cl_user_list = user_list s2, cl_sync_timestamp = sync_timestamp d,
                        on_event_observers = [ObsOnEvent]\<rparr>;
                  s3 = s2\<lparr>conv_list := Some cl\<rparr>;
                  s4 = s3\<lparr>notifier := Some \<lparr>nf_conv_list = conv_list s3\<rparr>\<rparr>;
                  dlg = \<lparr>lst_client = client s4, lst_conv_list = conv_list s4,
                         lst_visible = True\<rparr>
              in Done (emit EListShow (s4\<lparr>conversations_dialog := Some dlg\<rparr>))))"

datatype conv_event = ChatMessageEvent conv_id | RenameEvent conv_id | MembershipChangeEvent conv_id

fun is_chat_message :: "conv_event \<Rightarrow> bool" where
  "is_chat_message (ChatMessageEvent c) = True"
| "is_chat_message (RenameEvent c) = False"
| "is_chat_message (MembershipChangeEvent c) = False"

fun conversation_id :: "conv_event \<Rightarrow> conv_id" where
  "conversation_id (ChatMessageEvent c) = c"
| "conversation_id (RenameEvent c) = c"
| "conversation_id (MembershipChangeEvent c) = c"

definition on_event :: "conv_event \<Rightarrow> widget \<Rightarrow> widget" where
  "on_event ev s =
     (if is_chat_message ev then
        (let (d, s1) = (case messages_dialog s of
                          None \<Rightarrow> (new_conversations s, emit ESurfaceNew s)
                        | Some d \<Rightarrow> (d, s))
         in emit ESurfaceShow
              (s1\<lparr>messages_dialog :=
                    Some ((set_conv_tab (conversation_id ev) True d)\<lparr>msg_visible := True\<rparr>)\<rparr>))
      else s)"

subsection \<open>The event loop\<close>

text \<open>
  What reaches the widget: the \<^verbatim>\<open>triggered\<close> signal of a menu action (Qt emits it
  only while the action is enabled), the tray icon's \<^verbatim>\<open>activated\<close> signal, the
  termination signal handler (\<^verbatim>\<open>quit(force=True)\<close>), the client's \<^verbatim>\<open>on_connect\<close>
  event, the conversation list's \<^verbatim>\<open>on_event\<close> event, and the conversation-list
  dialog asking for a conversation to be opened.
\<close>

datatype event =
    TriggerStart
  | TriggerStop
  | TriggerSettings bool
  | TriggerQuit bool
  | TermSignal
  | Activated reason
  | ClientConnected initial_data
  | ConversationEvent conv_event
  | OpenMessages conv_id bool

text \<open>
  The single-shot timer: once the clock has reached its expiry the timer is inactive
  and its \<^verbatim>\<open>timeout\<close> signal runs \<^verbatim>\<open>icon_doubleclick_timeout\<close>. An event that
  arrives strictly before the expiry finds the timer active; one that arrives at the
  expiry or later finds that it has fired.
\<close>

definition fire_due :: "nat \<Rightarrow> widget \<Rightarrow> widget" where
  "fire_due t s =
     (case icon_doubleclick_timer s of
        None \<Rightarrow> s
      | Some d \<Rightarrow>
          if d \<le> t then icon_doubleclick_timeout (s\<lparr>icon_doubleclick_timer := None\<rparr>) else s)"

definition dispatch :: "env \<Rightarrow> event \<Rightarrow> widget \<Rightarrow> res" where
  "dispatch a ev s =
     (case ev of
        TriggerStart \<Rightarrow> if startAction_enabled s then hangups_start a s else Done s
      | TriggerStop \<Rightarrow> if stopAction_enabled s then hangups_stop s else Done s
      | TriggerSettings accepted \<Rightarrow> settings a accepted s
      | TriggerQuit yes \<Rightarrow> quit False yes s
      | TermSignal \<Rightarrow> quit True False s
      | Activated r \<Rightarrow> icon_activated a r s
      | ClientConnected d \<Rightarrow> on_connect d s
      | ConversationEvent e \<Rightarrow> Done (on_event e s)
      | OpenMessages c switch \<Rightarrow>
          if conversations_dialog s \<noteq> None then Done (open_messages_dialog c switch s) else Done s)"

text \<open>
  One turn of the event loop at time \<^verbatim>\<open>now\<close>: a due timer fires first, then the
  handler runs; an exception that leaves a handler is reported by the loop and the
  widget stays as the handler left it.
\<close>

definition deliver :: "env \<Rightarrow> event \<Rightarrow> widget \<Rightarrow> widget" where
  "deliver a ev s =
     (case dispatch a ev (fire_due (now a) s) of
        Done s' \<Rightarrow> s'
      | Raise e s' \<Rightarrow> emit (EUncaught e) s')"

text \<open>
  The widgets the event loop can produce from a fresh one. Callbacks of the
  collaborators are not restricted: the source never removes an observer and never
  cancels a connect it has scheduled, so \<^verbatim>\<open>on_connect\<close> may also run after
  \<^verbatim>\<open>hangups_stop\<close>.
\<close>

inductive reachable :: "widget \<Rightarrow> bool" where
  reachable_init: "reachable (init a path)"
| reachable_step: "reachable s \<Longrightarrow> reachable (deliver a ev s)"

subsection \<open>Session status and invariants\<close>

text \<open>
  The source keeps no status field. The session is Disconnected while
  \<^verbatim>\<open>hangups_running\<close> is false; while it is true the session is Connecting until
  \<^verbatim>\<open>on_connect\<close> has built the conversation list, and Connected from then on.
\<close>

datatype status = Disconnected | Connecting | Connected

definition session_status :: "widget \<Rightarrow> status" where
  "session_status s =
     (if hangups_running s then (if conv_list s = None then Connecting else Connected)
      else Disconnected)"

definition session_inv :: "widget \<Rightarrow> bool" where
  "session_inv s =
     (case session_status s of
        Disconnected \<Rightarrow>
          client s = None \<and> conv_list s = None \<and> user_list s = None \<and> notifier s = None
      | Connecting \<Rightarrow>
          client s \<noteq> None \<and> conv_list s = None \<and> user_list s = None \<and> notifier s = None
      | Connected \<Rightarrow>
          client s \<noteq> None \<and> conv_list s \<noteq> None \<and> user_list s \<noteq> None \<and> notifier s \<noteq> None)"

text \<open>
  The conversations dialog exists only while the session is running: only
  \<^verbatim>\<open>on_connect\<close> creates it, and \<^verbatim>\<open>hangups_stop\<close> drops it.
\<close>

definition view_inv :: "widget \<Rightarrow> bool" where
  "view_inv s = (hangups_running s \<or> conversations_dialog s = None)"

definition ui_inv :: "widget \<Rightarrow> bool" where
  "ui_inv s =
     (startAction_enabled s = (\<not> hangups_running s) \<and>
      stopAction_enabled s = hangups_running s \<and>
      tray_icon_active s = hangups_running s \<and>
      (client s \<noteq> None) = hangups_running s)"

text \<open>
  Each \<^verbatim>\<open>hangups_start\<close> calls the authentication library exactly once, and each
  \<^verbatim>\<open>hangups_stop\<close> that finds a client schedules exactly one disconnect: these two
  effects count the connection toggles. The show and hide calls on the
  conversation-list dialog count the visibility toggles.
\<close>

fun is_session_call :: "effect \<Rightarrow> bool" where
  "is_session_call (EGetAuth p) = True"
| "is_session_call (EDisconnect c) = True"
| "is_session_call e = False"

fun is_list_call :: "effect \<Rightarrow> bool" where
  "is_list_call EListShow = True"
| "is_list_call EListHide = True"
| "is_list_call e = False"

definition session_calls :: "effect list \<Rightarrow> effect list" where
  "session_calls es = filter is_session_call es"

definition list_calls :: "effect list \<Rightarrow> effect list" where
  "list_calls es = filter is_list_call es"

subsection \<open>Scenarios\<close>

definition some_cookies :: pyval where
  "some_cookies = PyCookies [(''SID'', ''abc'')]"

definition env_ok :: env where
  "env_ok = \<lparr>now = 0, double_click_interval = 400, auth = Finish (AuthReturns some_cookies),
     user = \<lparr>email_reply = (''a@b.c'', True), password_reply = (''pw'', True), pin_reply = (''1234'', True)\<rparr>,
     stored_language = ''cs'', system_language = ''en'', translation_files = [''cs'', ''de'']\<rparr>"

definition other_cookies :: pyval where
  "other_cookies = PyCookies [(''SID'', ''xyz'')]"

definition env_relogin :: env where
  "env_relogin = env_ok\<lparr>now := 5000, auth := Finish (AuthReturns other_cookies)\<rparr>"

definition snapshot :: initial_data where
  "snapshot = \<lparr>self_entity = ''me'', entities = [''me'', ''you''],
     conversation_participants = [''you''], conversation_states = [''C1'', ''C2''],
     sync_timestamp = 7\<rparr>"

definition disconnected_state :: widget where
  "disconnected_state = init env_ok ''cookies.json''"

definition connecting_state :: widget where
  "connecting_state = deliver env_ok TriggerStart disconnected_state"

definition connected_state :: widget where
  "connected_state = deliver env_ok (ClientConnected snapshot) connecting_state"

definition stopped_state :: widget where
  "stopped_state = deliver env_ok TriggerStop connecting_state"

text \<open>Start, stop, and the connect of the dropped client completing afterwards.\<close>

definition late_connect_state :: widget where
  "late_connect_state = deliver env_ok (ClientConnected snapshot) stopped_state"

definition the_client :: client_obj where
  "the_client = \<lparr>client_cookies = some_cookies, on_connect_observers = [ObsOnConnect]\<rparr>"

text \<open>
  Two clicks on the tray icon: the first is delivered at \<^verbatim>\<open>now a1\<close>, the
  second at \<^verbatim>\<open>now a2\<close>; the result is what the second handler returns.
\<close>

definition double_click :: "env \<Rightarrow> env \<Rightarrow> widget \<Rightarrow> res" where
  "double_click a1 a2 s =
     dispatch a2 (Activated Trigger) (fire_due (now a2) (deliver a1 (Activated Trigger) s))"

text \<open>One click delivered at \<^verbatim>\<open>now a\<close>, then nothing until the clock shows \<^verbatim>\<open>t\<close>.\<close>

definition single_click :: "env \<Rightarrow> nat \<Rightarrow> widget \<Rightarrow> widget" where
  "single_click a t s = fire_due t (deliver a (Activated Trigger) s)"

definition chatting_state :: widget where
  "chatting_state = deliver env_ok (ConversationEvent (ChatMessageEvent ''C1'')) connected_state"

definition cancelling_user :: prompts where
  "cancelling_user =
     \<lparr>email_reply = (''a@b.c'', True), password_reply = ([], False), pin_reply = ([], False)\<rparr>"

text \<open>
  A library that unpacks what the credentials callback returns (a \<^verbatim>\<open>TypeError\<close>
  when that is \<^verbatim>\<open>False\<close>), then asks for a PIN, submits whatever the PIN callback
  returns, and is refused unless the PIN is the right one.
\<close>

definition submitting_flow :: auth_flow where
  "submitting_flow =
     CallCredentials (\<lambda>v.
       case v of
         PyCreds email password \<Rightarrow>
           CallPin (\<lambda>p.
             if p = PyStr ''1234'' then Finish (AuthReturns some_cookies)
             else Finish (AuthRaises GoogleAuthError))
       | _ \<Rightarrow> Finish (AuthRaises (OtherException ''TypeError'')))"

definition env_cancel :: env where
  "env_cancel = env_ok\<lparr>auth := submitting_flow, user := cancelling_user\<rparr>"

definition env_cancel_pin :: env where
  "env_cancel_pin =
     env_ok\<lparr>auth := submitting_flow, user := (user env_ok)\<lparr>pin_reply := ([], False)\<rparr>\<rparr>"

definition env_wrong_pin :: env where
  "env_wrong_pin =
     env_ok\<lparr>auth := submitting_flow, user := (user env_ok)\<lparr>pin_reply := (''0000'', True)\<rparr>\<rparr>"

definition env_click1 :: env where
  "env_click1 = env_ok\<lparr>now := 1000\<rparr>"

definition env_click2 :: env where
  "env_click2 = env_ok\<lparr>now := 1250\<rparr>"

section \<open>Properties\<close>

lemmas handler_defs =
  hangups_start_def hangups_stop_def login_def settings_def quit_def icon_activated_def
  icon_doubleclick_timeout_def on_connect_def on_event_def open_messages_dialog_def
  update_status_def emit_def set_language_def new_conversations_def new_user_list_def

lemmas loop_defs = dispatch_def deliver_def fire_due_def

lemmas scenario_defs =
  disconnected_state_def connecting_state_def connected_state_def stopped_state_def
  late_connect_state_def env_ok_def env_relogin_def snapshot_def some_cookies_def other_cookies_def
  init_def

subsection \<open>The user-interface invariant\<close>

lemma ui_inv_emit [simp]: "ui_inv (emit e s) = ui_inv s"
  by (simp add: ui_inv_def emit_def)

lemma ui_inv_init: "ui_inv (init a path)"
  by (simp add: ui_inv_def init_def set_language_def update_status_def Let_def)

lemma ui_inv_hangups_start: "ui_inv s \<Longrightarrow> ui_inv (state_of (hangups_start a s))"
  by (auto simp: ui_inv_def hangups_start_def login_def update_status_def emit_def Let_def
      split: auth_outcome.splits)

lemma ui_inv_hangups_stop: "ui_inv s \<Longrightarrow> ui_inv (state_of (hangups_stop s))"
  by (auto simp: ui_inv_def hangups_stop_def update_status_def emit_def Let_def
      split: option.splits)

lemma ui_inv_set_language [simp]: "ui_inv (set_language a s) = ui_inv s"
  by (simp add: ui_inv_def set_language_def Let_def)

lemma ui_inv_settings: "ui_inv s \<Longrightarrow> ui_inv (state_of (settings a accepted s))"
proof -
  assume inv: "ui_inv s"
  show ?thesis
  proof (cases "accepted \<and> hangups_running (set_language a s)")
    case False
    with inv show ?thesis by (auto simp: settings_def Let_def)
  next
    case True
    show ?thesis
    proof (cases "hangups_stop (set_language a s)")
      case (Done s2)
      from inv have "ui_inv (state_of (hangups_stop (set_language a s)))"
        by (intro ui_inv_hangups_stop) simp
      with Done have "ui_inv s2" by simp
      then have "ui_inv (state_of (hangups_start a s2))" by (rule ui_inv_hangups_start)
      with True Done show ?thesis by (simp add: settings_def Let_def)
    next
      case (Raise e s2)
      from inv have "ui_inv (state_of (hangups_stop (set_language a s)))"
        by (intro ui_inv_hangups_stop) simp
      with True Raise show ?thesis by (simp add: settings_def Let_def)
    qed
  qed
qed

lemma ui_inv_quit: "ui_inv s \<Longrightarrow> ui_inv (state_of (quit force yes s))"
proof -
  assume inv: "ui_inv s"
  have stop: "ui_inv (state_of (hangups_stop s1))" if "ui_inv s1" for s1
    using that by (rule ui_inv_hangups_stop)
  show ?thesis
    using inv stop [of s] stop [of "emit EQuestion s"]
    by (auto simp: quit_def Let_def split: res.splits)
qed

lemma ui_inv_icon_activated: "ui_inv s \<Longrightarrow> ui_inv (state_of (icon_activated a r s))"
proof -
  assume inv: "ui_inv s"
  then have inv': "ui_inv (s\<lparr>icon_doubleclick_timer := None\<rparr>)"
    by (simp add: ui_inv_def)
  show ?thesis
    using inv ui_inv_hangups_stop [OF inv'] ui_inv_hangups_start [OF inv', of a]
    by (auto simp: icon_activated_def Let_def ui_inv_def)
qed

lemma ui_inv_timeout: "ui_inv s \<Longrightarrow> ui_inv (icon_doubleclick_timeout s)"
  by (auto simp: ui_inv_def icon_doubleclick_timeout_def emit_def split: option.splits)

lemma ui_inv_fire_due: "ui_inv s \<Longrightarrow> ui_inv (fire_due t s)"
proof -
  assume inv: "ui_inv s"
  then have "ui_inv (s\<lparr>icon_doubleclick_timer := None\<rparr>)" by (simp add: ui_inv_def)
  then have "ui_inv (icon_doubleclick_timeout (s\<lparr>icon_doubleclick_timer := None\<rparr>))"
    by (rule ui_inv_timeout)
  with inv show ?thesis by (simp add: fire_due_def split: option.splits)
qed

lemma ui_inv_on_connect: "ui_inv s \<Longrightarrow> ui_inv (state_of (on_connect d s))"
  by (auto simp: ui_inv_def on_connect_def new_user_list_def emit_def Let_def
      split: option.splits)

lemma ui_inv_on_event: "ui_inv s \<Longrightarrow> ui_inv (on_event ev s)"
  by (auto simp: ui_inv_def on_event_def emit_def Let_def split: option.splits)

lemma ui_inv_open_messages_dialog: "ui_inv s \<Longrightarrow> ui_inv (open_messages_dialog c sw s)"
  by (auto simp: ui_inv_def open_messages_dialog_def emit_def Let_def split: option.splits)

lemma ui_inv_dispatch: "ui_inv s \<Longrightarrow> ui_inv (state_of (dispatch a ev s))"
  by (cases ev)
     (simp_all add: dispatch_def ui_inv_hangups_start ui_inv_hangups_stop ui_inv_settings
        ui_inv_quit ui_inv_icon_activated ui_inv_on_connect ui_inv_on_event
        ui_inv_open_messages_dialog)

lemma ui_inv_deliver: "ui_inv s \<Longrightarrow> ui_inv (deliver a ev s)"
proof -
  assume "ui_inv s"
  then have "ui_inv (state_of (dispatch a ev (fire_due (now a) s)))"
    by (intro ui_inv_dispatch ui_inv_fire_due)
  then show ?thesis
    by (cases "dispatch a ev (fire_due (now a) s)") (simp_all add: deliver_def)
qed

lemma reachable_ui_inv: "reachable s \<Longrightarrow> ui_inv s"
  by (induction rule: reachable.induct) (simp_all add: ui_inv_init ui_inv_deliver)

text \<open>
  Claim C1, as amended. \<^verbatim>\<open>hangups_start\<close> does not look at \<^verbatim>\<open>hangups_running\<close>;
  what is a no-op while the session is running is the Connect menu action: in every
  reachable state with \<^verbatim>\<open>hangups_running\<close> true, \<^verbatim>\<open>update_status\<close> has disabled
  \<^verbatim>\<open>startAction\<close>, so triggering it changes no state, allocates no client and
  registers no observer.
\<close>

theorem start_action_is_noop_while_running:
  assumes "reachable s" and "hangups_running s"
  shows "\<not> startAction_enabled s \<and> dispatch a TriggerStart s = Done s"
  using reachable_ui_inv [OF assms(1)] assms(2) by (simp add: ui_inv_def dispatch_def)

subsection \<open>Concrete states\<close>

lemma reachable_connected_state: "reachable connected_state"
  unfolding connected_state_def connecting_state_def disconnected_state_def
  by (intro reachable.intros)

lemma reachable_late_connect_state: "reachable late_connect_state"
  unfolding late_connect_state_def stopped_state_def connecting_state_def disconnected_state_def
  by (intro reachable.intros)

lemma truthy_cookies [simp]: "truthy some_cookies" "truthy other_cookies"
  by (simp_all add: some_cookies_def other_cookies_def)

lemma disconnected_state_eval:
  "disconnected_state =
     \<lparr>translator = ''cs'', cookies_path = ''cookies.json'', hangups_running = False,
      client = None, tray_icon_active = False, startAction_enabled = True,
      stopAction_enabled = False, conv_list = None, user_list = None, notifier = None,
      conversations_dialog = None, messages_dialog = None, icon_doubleclick_timer = None,
      effects = []\<rparr>"
  by (simp add: scenario_defs handler_defs Let_def)

lemma connecting_state_eval:
  "connecting_state =
     \<lparr>translator = ''cs'', cookies_path = ''cookies.json'', hangups_running = True,
      client = Some the_client, tray_icon_active = True, startAction_enabled = False,
      stopAction_enabled = True, conv_list = None, user_list = None, notifier = None,
      conversations_dialog = None, messages_dialog = None, icon_doubleclick_timer = None,
      effects = [EGetAuth ''cookies.json'', EConnect the_client]\<rparr>"
  unfolding connecting_state_def disconnected_state_eval
  by (simp add: loop_defs handler_defs env_ok_def the_client_def Let_def)

lemma stopped_state_eval:
  "stopped_state =
     \<lparr>translator = ''cs'', cookies_path = ''cookies.json'', hangups_running = False,
      client = None, tray_icon_active = False, startAction_enabled = True,
      stopAction_enabled = False, conv_list = None, user_list = None, notifier = None,
      conversations_dialog = None, messages_dialog = None, icon_doubleclick_timer = None,
      effects = [EGetAuth ''cookies.json'', EConnect the_client, EDisconnect the_client]\<rparr>"
  unfolding stopped_state_def connecting_state_eval
  by (simp add: loop_defs handler_defs env_ok_def Let_def)

lemma connected_state_fields:
  "hangups_running connected_state" "client connected_state = Some the_client"
  "conv_list connected_state \<noteq> None" "startAction_enabled connected_state = False"
  "icon_doubleclick_timer connected_state = None"
  "cookies_path connected_state = ''cookies.json''"
  "effects connected_state =
     [EGetAuth ''cookies.json'', EConnect the_client, EPrint ''Connected'', EListShow]"
  "messages_dialog connected_state = None"
  unfolding connected_state_def connecting_state_eval
  by (simp_all add: loop_defs handler_defs env_ok_def Let_def)

lemma late_connect_state_eval:
  "late_connect_state =
     stopped_state\<lparr>effects := effects stopped_state @
       [EPrint ''Connected'', EUncaught AttributeError]\<rparr>"
  unfolding late_connect_state_def stopped_state_eval
  by (simp add: loop_defs handler_defs Let_def)

text \<open>
  Claim C1 as stated fails: called on a running, connected widget with a login that
  succeeds, \<^verbatim>\<open>hangups_start\<close> asks the library for cookies, allocates a second
  client with a new \<^verbatim>\<open>on_connect\<close> observer and schedules a second connect.
\<close>

theorem hangups_start_while_running_replaces_client:
  "hangups_running connected_state \<and>
   client connected_state =
     Some \<lparr>client_cookies = some_cookies, on_connect_observers = [ObsOnConnect]\<rparr> \<and>
   hangups_start env_relogin connected_state \<noteq> Done connected_state \<and>
   client (state_of (hangups_start env_relogin connected_state)) =
     Some \<lparr>client_cookies = other_cookies, on_connect_observers = [ObsOnConnect]\<rparr> \<and>
   effects (state_of (hangups_start env_relogin connected_state)) =
     effects connected_state @
       [EGetAuth ''cookies.json'',
        EConnect \<lparr>client_cookies = other_cookies, on_connect_observers = [ObsOnConnect]\<rparr>]"
proof -
  let ?c = "\<lparr>client_cookies = other_cookies, on_connect_observers = [ObsOnConnect]\<rparr>"
  have r: "hangups_start env_relogin connected_state =
      Done (update_status (connected_state
        \<lparr>client := Some ?c,
         effects := effects connected_state @ [EGetAuth ''cookies.json'', EConnect ?c],
         hangups_running := True\<rparr>))"
    by (simp add: hangups_start_def login_def env_relogin_def env_ok_def
          emit_def Let_def connected_state_fields)
  have c: "client (state_of (hangups_start env_relogin connected_state)) = Some ?c"
    unfolding r by (simp add: update_status_def)
  have e: "effects (state_of (hangups_start env_relogin connected_state)) =
      effects connected_state @ [EGetAuth ''cookies.json'', EConnect ?c]"
    unfolding r by (simp add: update_status_def)
  have "effects (state_of (hangups_start env_relogin connected_state)) \<noteq>
      effects (state_of (Done connected_state))"
    unfolding e by simp
  then have n: "hangups_start env_relogin connected_state \<noteq> Done connected_state"
    by metis
  from c e n show ?thesis
    by (simp add: connected_state_fields the_client_def)
qed

theorem start_action_is_noop_while_running_witness:
  "reachable connected_state \<and> hangups_running connected_state \<and>
   \<not> startAction_enabled connected_state \<and>
   dispatch env_relogin TriggerStart connected_state = Done connected_state"
  using start_action_is_noop_while_running [OF reachable_connected_state, of env_relogin]
  by (simp add: reachable_connected_state connected_state_fields)

subsection \<open>Session lifecycle\<close>

text \<open>
  Claim C2, as amended. When the client handle is absent (as in every Disconnected
  state), \<^verbatim>\<open>hangups_stop\<close> leaves all state unchanged, but it is not silent:
  \<^verbatim>\<open>self.client.disconnect()\<close> raises \<^verbatim>\<open>AttributeError\<close> before anything is assigned.
\<close>

theorem hangups_stop_without_client_raises:
  "client s = None \<Longrightarrow> hangups_stop s = Raise AttributeError s"
  by (simp add: hangups_stop_def)

text \<open>
  Claim C2 as stated fails on the freshly constructed, Disconnected widget: the call
  does not return normally.
\<close>

theorem hangups_stop_disconnected_is_an_error:
  "\<not> hangups_running disconnected_state \<and> client disconnected_state = None \<and>
   hangups_stop disconnected_state \<noteq> Done disconnected_state \<and>
   hangups_stop disconnected_state = Raise AttributeError disconnected_state"
  by (simp add: hangups_stop_def disconnected_state_eval)

theorem hangups_stop_without_client_raises_witness:
  "client stopped_state = None \<and> hangups_stop stopped_state = Raise AttributeError stopped_state"
proof -
  have c: "client stopped_state = None" by (simp add: stopped_state_eval)
  from c hangups_stop_without_client_raises [OF c] show ?thesis by simp
qed

text \<open>
  The session invariant holds initially and is kept by every turn of the event loop.
  A late \<^verbatim>\<open>on_connect\<close> finds no client, fails in the constructor of the user list
  and assigns nothing.
\<close>

lemma session_inv_emit [simp]: "session_inv (emit e s) = session_inv s"
  by (simp add: session_inv_def session_status_def emit_def)

lemma session_inv_init: "session_inv (init a path)"
  by (simp add: session_inv_def session_status_def init_def set_language_def
        update_status_def Let_def)

lemma session_inv_hangups_start: "session_inv s \<Longrightarrow> session_inv (state_of (hangups_start a s))"
  by (auto simp: session_inv_def session_status_def hangups_start_def login_def
        update_status_def emit_def Let_def split: auth_outcome.splits if_splits)

lemma session_inv_hangups_stop: "session_inv (state_of (hangups_stop s)) = (client s \<noteq> None \<or> session_inv s)"
  by (auto simp: session_inv_def session_status_def hangups_stop_def update_status_def
        emit_def Let_def split: option.splits)

lemma session_inv_on_connect:
  "session_inv s \<Longrightarrow> session_inv (state_of (on_connect d s))"
  by (auto simp: session_inv_def session_status_def on_connect_def new_user_list_def
        emit_def Let_def split: if_splits option.splits)

lemma session_inv_timer [simp]:
  "session_inv (s\<lparr>icon_doubleclick_timer := x\<rparr>) = session_inv s"
  by (simp add: session_inv_def session_status_def)

lemma session_inv_set_language [simp]: "session_inv (set_language a s) = session_inv s"
  by (simp add: session_inv_def session_status_def set_language_def Let_def)

lemma session_inv_stop: "session_inv s \<Longrightarrow> session_inv (state_of (hangups_stop s))"
  by (simp add: session_inv_hangups_stop)

lemma session_inv_settings: "session_inv s \<Longrightarrow> session_inv (state_of (settings a accepted s))"
proof -
  assume inv: "session_inv s"
  then have stop: "session_inv (state_of (hangups_stop (set_language a s)))"
    by (intro session_inv_stop) simp
  show ?thesis
  proof (cases "hangups_stop (set_language a s)")
    case (Done s2)
    with stop have "session_inv (state_of (hangups_start a s2))"
      by (intro session_inv_hangups_start) simp
    with inv Done show ?thesis by (simp add: settings_def Let_def)
  next
    case (Raise e s2)
    with inv stop show ?thesis by (simp add: settings_def Let_def)
  qed
qed

lemma session_inv_quit: "session_inv s \<Longrightarrow> session_inv (state_of (quit force yes s))"
proof -
  assume inv: "session_inv s"
  have stop: "session_inv (state_of (hangups_stop s1))" if "session_inv s1" for s1
    using that by (rule session_inv_stop)
  show ?thesis
    using inv stop [of s] stop [of "emit EQuestion s"]
    by (auto simp: quit_def Let_def split: res.splits)
qed

lemma session_inv_icon_activated:
  "session_inv s \<Longrightarrow> session_inv (state_of (icon_activated a r s))"
proof -
  assume inv: "session_inv s"
  then have inv': "session_inv (s\<lparr>icon_doubleclick_timer := None\<rparr>)" by simp
  show ?thesis
    using inv session_inv_stop [OF inv'] session_inv_hangups_start [OF inv', of a]
    by (simp add: icon_activated_def Let_def)
qed

lemma session_inv_timeout: "session_inv (icon_doubleclick_timeout s) = session_inv s"
  by (auto simp: session_inv_def session_status_def icon_doubleclick_timeout_def emit_def
        split: option.splits)

lemma session_inv_fire_due: "session_inv (fire_due t s) = session_inv s"
  by (simp add: fire_due_def session_inv_timeout split: option.splits)

lemma running_fire_due: "hangups_running (fire_due t s) = hangups_running s"
  by (simp add: fire_due_def icon_doubleclick_timeout_def emit_def split: option.splits)

lemma session_inv_on_event: "session_inv (on_event ev s) = session_inv s"
  by (auto simp: session_inv_def session_status_def on_event_def emit_def Let_def
        split: option.splits)

lemma session_inv_open_messages_dialog:
  "session_inv (open_messages_dialog c sw s) = session_inv s"
  by (auto simp: session_inv_def session_status_def open_messages_dialog_def emit_def Let_def
        split: option.splits)

lemma session_inv_deliver:
  assumes inv: "session_inv s"
  shows "session_inv (deliver a ev s)"
proof -
  let ?s = "fire_due (now a) s"
  from inv have inv': "session_inv ?s" by (simp add: session_inv_fire_due)
  have "session_inv (state_of (dispatch a ev ?s))"
    using inv'
    by (cases ev)
       (simp_all add: dispatch_def session_inv_hangups_start session_inv_stop
          session_inv_settings session_inv_quit session_inv_icon_activated
          session_inv_on_connect session_inv_on_event session_inv_open_messages_dialog)
  then show ?thesis
    by (cases "dispatch a ev ?s") (simp_all add: deliver_def)
qed

text \<open>
  Claim C3. In every reachable state of the controller the four session handles
  are all present and the status is Connected, or all absent and the status is
  Disconnected, or the status is Connecting and only the client handle is present.
\<close>

theorem reachable_session_invariant:
  "reachable s \<Longrightarrow> session_inv s"
  by (induction rule: reachable.induct) (simp_all add: session_inv_init session_inv_deliver)

theorem reachable_session_invariant_witness:
  "reachable connected_state \<and> session_status connected_state = Connected \<and>
   session_inv connected_state \<and>
   reachable connecting_state \<and> session_status connecting_state = Connecting \<and>
   session_inv connecting_state \<and>
   reachable late_connect_state \<and> session_status late_connect_state = Disconnected \<and>
   session_inv late_connect_state \<and>
   client late_connect_state = None \<and> conv_list late_connect_state = None \<and>
   user_list late_connect_state = None \<and> notifier late_connect_state = None"
proof -
  have r1: "reachable connected_state" by (rule reachable_connected_state)
  have r2: "reachable connecting_state"
    unfolding connecting_state_def disconnected_state_def by (intro reachable.intros)
  have r3: "reachable late_connect_state" by (rule reachable_late_connect_state)
  have s1: "session_status connected_state = Connected"
    by (simp add: session_status_def connected_state_fields)
  have s2: "session_status connecting_state = Connecting"
    by (simp add: session_status_def connecting_state_eval)
  have s3: "session_status late_connect_state = Disconnected"
    by (simp add: session_status_def late_connect_state_eval stopped_state_eval)
  have absent: "client late_connect_state = None" "conv_list late_connect_state = None"
    "user_list late_connect_state = None" "notifier late_connect_state = None"
    by (simp_all add: late_connect_state_eval stopped_state_eval)
  from reachable_session_invariant [OF r1] reachable_session_invariant [OF r2]
       reachable_session_invariant [OF r3] r1 r2 r3 s1 s2 s3 absent
  show ?thesis by blast
qed

lemma view_inv_emit [simp]: "view_inv (emit e s) = view_inv s"
  by (simp add: view_inv_def emit_def)

lemma view_inv_timer [simp]: "view_inv (s\<lparr>icon_doubleclick_timer := x\<rparr>) = view_inv s"
  by (simp add: view_inv_def)

lemma view_inv_set_language [simp]: "view_inv (set_language a s) = view_inv s"
  by (simp add: view_inv_def set_language_def Let_def)















lemma chatting_state_fields:
  "client chatting_state = Some the_client" "messages_dialog chatting_state \<noteq> None"
  "conv_list chatting_state \<noteq> None" "hangups_running chatting_state"
  unfolding chatting_state_def
  by (simp_all add: loop_defs on_event_def emit_def new_conversations_def Let_def
        connected_state_fields)




subsection \<open>Tray-icon gestures\<close>

text \<open>
  What \<^verbatim>\<open>hangups_start\<close> and \<^verbatim>\<open>hangups_stop\<close> add to the effect log, and that
  neither touches the double-click timer.
\<close>

lemma effects_hangups_stop:
  "client s = Some c \<Longrightarrow> effects (state_of (hangups_stop s)) = effects s @ [EDisconnect c]"
  by (simp add: hangups_stop_def update_status_def emit_def Let_def)

lemma effects_hangups_start:
  "\<exists>es. effects (state_of (hangups_start a s)) = effects s @ EGetAuth (cookies_path s) # es \<and>
        session_calls es = [] \<and> list_calls es = []"
  by (auto simp: hangups_start_def login_def update_status_def emit_def Let_def
        session_calls_def list_calls_def split: auth_outcome.splits)

lemma session_calls_append [simp]:
  "session_calls (xs @ ys) = session_calls xs @ session_calls ys"
  by (simp add: session_calls_def)

lemma list_calls_append [simp]:
  "list_calls (xs @ ys) = list_calls xs @ list_calls ys"
  by (simp add: list_calls_def)

lemma calls_Cons [simp]:
  "session_calls (EGetAuth p # es) = EGetAuth p # session_calls es"
  "session_calls (EDisconnect c # es) = EDisconnect c # session_calls es"
  "session_calls [] = []" "list_calls [] = []"
  "list_calls (EGetAuth p # es) = list_calls es"
  "list_calls (EDisconnect c # es) = list_calls es"
  "session_calls (EListShow # es) = session_calls es"
  "session_calls (EListHide # es) = session_calls es"
  "list_calls (EListShow # es) = EListShow # list_calls es"
  "list_calls (EListHide # es) = EListHide # list_calls es"
  by (simp_all add: session_calls_def list_calls_def)

lemma session_calls_hangups_start:
  "session_calls (effects (state_of (hangups_start a s))) =
     session_calls (effects s) @ [EGetAuth (cookies_path s)]"
  using effects_hangups_start [of a s] by auto

lemma list_calls_hangups_start:
  "list_calls (effects (state_of (hangups_start a s))) = list_calls (effects s)"
  using effects_hangups_start [of a s] by auto

lemma list_calls_hangups_stop:
  "list_calls (effects (state_of (hangups_stop s))) = list_calls (effects s)"
proof (cases "client s")
  case None
  then show ?thesis by (simp add: hangups_stop_def)
next
  case (Some c)
  then show ?thesis by (simp add: effects_hangups_stop)
qed

lemma timer_hangups_start:
  "icon_doubleclick_timer (state_of (hangups_start a s)) = icon_doubleclick_timer s"
  by (auto simp: hangups_start_def login_def update_status_def emit_def Let_def
        split: auth_outcome.splits)

lemma timer_hangups_stop:
  "icon_doubleclick_timer (state_of (hangups_stop s)) = icon_doubleclick_timer s"
  by (auto simp: hangups_stop_def update_status_def emit_def Let_def split: option.splits)

lemma fire_due_inactive: "icon_doubleclick_timer s = None \<Longrightarrow> fire_due t s = s"
  by (simp add: fire_due_def)

lemma first_click:
  "icon_doubleclick_timer s = None \<Longrightarrow>
   deliver a (Activated Trigger) s =
     s\<lparr>icon_doubleclick_timer := Some (now a + double_click_interval a)\<rparr>"
  by (simp add: deliver_def dispatch_def fire_due_def icon_activated_def)

lemma timer_reset: "icon_doubleclick_timer s = None \<Longrightarrow> s\<lparr>icon_doubleclick_timer := None\<rparr> = s"
  by simp

lemma double_click_eq:
  assumes idle: "icon_doubleclick_timer s = None"
    and within: "now a2 < now a1 + double_click_interval a1"
  shows "double_click a1 a2 s = (if hangups_running s then hangups_stop s else hangups_start a2 s)"
  using within timer_reset [OF idle]
  by (simp add: double_click_def first_click [OF idle] fire_due_def dispatch_def
        icon_activated_def Let_def)

text \<open>
  Claim C5. Two clicks on the tray icon, the first arriving while the timer is idle
  and the second strictly within the double-click interval: the second handler is
  exactly one connection toggle (\<^verbatim>\<open>hangups_stop\<close> if the session is running, else
  \<^verbatim>\<open>hangups_start\<close>) applied to the widget as it was before the first click. The
  timer is inactive afterwards, so no timeout fires at any later time, and no show
  or hide of the conversation list is added to the effect log.
\<close>

theorem double_click_toggles_connection_once:
  assumes idle: "icon_doubleclick_timer s = None"
    and order: "now a1 \<le> now a2"
    and within: "now a2 < now a1 + double_click_interval a1"
  shows "double_click a1 a2 s = (if hangups_running s then hangups_stop s else hangups_start a2 s) \<and>
    icon_doubleclick_timer (state_of (double_click a1 a2 s)) = None \<and>
    (\<forall>t. fire_due t (state_of (double_click a1 a2 s)) = state_of (double_click a1 a2 s)) \<and>
    list_calls (effects (state_of (double_click a1 a2 s))) = list_calls (effects s) \<and>
    (\<forall>c. client s = Some c \<longrightarrow>
       session_calls (effects (state_of (double_click a1 a2 s))) =
         session_calls (effects s) @
           [if hangups_running s then EDisconnect c else EGetAuth (cookies_path s)]) \<and>
    (\<not> hangups_running s \<longrightarrow>
       session_calls (effects (state_of (double_click a1 a2 s))) =
         session_calls (effects s) @ [EGetAuth (cookies_path s)])"
proof -
  let ?r = "double_click a1 a2 s"
  have eq: "?r = (if hangups_running s then hangups_stop s else hangups_start a2 s)"
    using idle within by (rule double_click_eq)
  have timer: "icon_doubleclick_timer (state_of ?r) = None"
    unfolding eq using idle by (simp add: timer_hangups_start timer_hangups_stop)
  have quiet: "\<forall>t. fire_due t (state_of ?r) = state_of ?r"
    using timer by (simp add: fire_due_inactive)
  have lists: "list_calls (effects (state_of ?r)) = list_calls (effects s)"
    unfolding eq by (simp add: list_calls_hangups_start list_calls_hangups_stop)
  have calls: "\<forall>c. client s = Some c \<longrightarrow>
       session_calls (effects (state_of ?r)) =
         session_calls (effects s) @
           [if hangups_running s then EDisconnect c else EGetAuth (cookies_path s)]"
    unfolding eq by (simp add: session_calls_hangups_start effects_hangups_stop)
  have starts: "\<not> hangups_running s \<longrightarrow>
       session_calls (effects (state_of ?r)) =
         session_calls (effects s) @ [EGetAuth (cookies_path s)]"
    unfolding eq by (simp add: session_calls_hangups_start)
  from eq timer quiet lists calls starts show ?thesis by blast
qed

text \<open>
  Claim C6. One click arriving while the timer is idle, followed by silence longer
  than the double-click interval: the timer fires once and toggles the visibility of
  the conversation list (hide if the dialog exists and is visible, show if it exists
  and is hidden, nothing if it does not exist); the session is untouched and nothing
  is asked of the authentication library or the client.
\<close>

theorem single_click_toggles_list_once:
  assumes idle: "icon_doubleclick_timer s = None"
    and silence: "now a + double_click_interval a < t"
  shows "single_click a t s =
      (case conversations_dialog s of
         None \<Rightarrow> s
       | Some d \<Rightarrow>
           emit (if lst_visible d then EListHide else EListShow)
             (s\<lparr>conversations_dialog := Some (d\<lparr>lst_visible := \<not> lst_visible d\<rparr>)\<rparr>)) \<and>
    list_calls (effects (single_click a t s)) =
      list_calls (effects s) @
        (case conversations_dialog s of
           None \<Rightarrow> []
         | Some d \<Rightarrow> [if lst_visible d then EListHide else EListShow]) \<and>
    session_calls (effects (single_click a t s)) = session_calls (effects s) \<and>
    hangups_running (single_click a t s) = hangups_running s \<and>
    client (single_click a t s) = client s \<and>
    icon_doubleclick_timer (single_click a t s) = None"
proof -
  have t: "single_click a t s = icon_doubleclick_timeout s"
    using silence timer_reset [OF idle]
    by (simp add: single_click_def first_click [OF idle] fire_due_def)
  show ?thesis
    unfolding t using idle
    by (auto simp: icon_doubleclick_timeout_def emit_def split: option.splits)
qed


theorem double_click_toggles_connection_once_witness:
  "icon_doubleclick_timer connected_state = None \<and>
   now env_click1 \<le> now env_click2 \<and>
   now env_click2 < now env_click1 + double_click_interval env_click1 \<and>
   hangups_running connected_state \<and>
   double_click env_click1 env_click2 connected_state = hangups_stop connected_state \<and>
   icon_doubleclick_timer (state_of (double_click env_click1 env_click2 connected_state)) = None \<and>
   list_calls (effects (state_of (double_click env_click1 env_click2 connected_state))) =
     list_calls (effects connected_state) \<and>
   session_calls (effects (state_of (double_click env_click1 env_click2 connected_state))) =
     session_calls (effects connected_state) @ [EDisconnect the_client]"
proof -
  have idle: "icon_doubleclick_timer connected_state = None"
    by (simp add: connected_state_fields)
  have order: "now env_click1 \<le> now env_click2"
    by (simp add: env_click1_def env_click2_def env_ok_def)
  have within: "now env_click2 < now env_click1 + double_click_interval env_click1"
    by (simp add: env_click1_def env_click2_def env_ok_def)
  have running: "hangups_running connected_state"
    by (simp add: connected_state_fields)
  note th = double_click_toggles_connection_once [OF idle order within]
  let ?r = "double_click env_click1 env_click2 connected_state"
  from th have "?r = (if hangups_running connected_state then hangups_stop connected_state
      else hangups_start env_click2 connected_state)"
    by (rule conjunct1)
  with running have toggle: "?r = hangups_stop connected_state"
    by simp
  from th have timer: "icon_doubleclick_timer (state_of ?r) = None"
    by blast
  from th have lists: "list_calls (effects (state_of ?r)) = list_calls (effects connected_state)"
    by blast
  from th have "\<forall>c. client connected_state = Some c \<longrightarrow>
      session_calls (effects (state_of ?r)) =
        session_calls (effects connected_state) @
          [if hangups_running connected_state then EDisconnect c
           else EGetAuth (cookies_path connected_state)]"
    by blast
  then have calls: "session_calls (effects (state_of ?r)) =
      session_calls (effects connected_state) @ [EDisconnect the_client]"
    using running connected_state_fields(2) by simp
  from idle order within running toggle timer lists calls show ?thesis
    by blast
qed

theorem single_click_toggles_list_once_witness:
  "icon_doubleclick_timer connected_state = None \<and>
   now env_click1 + double_click_interval env_click1 < 1500 \<and>
   (\<exists>d. conversations_dialog connected_state = Some d \<and> lst_visible d \<and>
      single_click env_click1 1500 connected_state =
        emit EListHide (connected_state\<lparr>conversations_dialog := Some (d\<lparr>lst_visible := False\<rparr>)\<rparr>)) \<and>
   list_calls (effects (single_click env_click1 1500 connected_state)) =
     list_calls (effects connected_state) @ [EListHide] \<and>
   session_calls (effects (single_click env_click1 1500 connected_state)) =
     session_calls (effects connected_state)"
proof -
  have idle: "icon_doubleclick_timer connected_state = None"
    by (simp add: connected_state_fields)
  have silence: "now env_click1 + double_click_interval env_click1 < 1500"
    by (simp add: env_click1_def env_ok_def)
  have dlg: "\<exists>d. conversations_dialog connected_state = Some d \<and> lst_visible d"
    unfolding connected_state_def connecting_state_eval
    by (simp add: loop_defs handler_defs Let_def)
  then obtain d where d: "conversations_dialog connected_state = Some d" "lst_visible d"
    by blast
  note th = single_click_toggles_list_once [OF idle silence]
  let ?r = "single_click env_click1 1500 connected_state"
  from th have "?r =
      (case conversations_dialog connected_state of
         None \<Rightarrow> connected_state
       | Some d \<Rightarrow>
           emit (if lst_visible d then EListHide else EListShow)
             (connected_state\<lparr>conversations_dialog := Some (d\<lparr>lst_visible := \<not> lst_visible d\<rparr>)\<rparr>))"
    by (rule conjunct1)
  with d have hide: "?r =
      emit EListHide (connected_state\<lparr>conversations_dialog := Some (d\<lparr>lst_visible := False\<rparr>)\<rparr>)"
    by simp
  from th have "list_calls (effects ?r) =
      list_calls (effects connected_state) @
        (case conversations_dialog connected_state of
           None \<Rightarrow> []
         | Some d \<Rightarrow> [if lst_visible d then EListHide else EListShow])"
    by blast
  with d have lists: "list_calls (effects ?r) = list_calls (effects connected_state) @ [EListHide]"
    by simp
  from th have calls: "session_calls (effects ?r) = session_calls (effects connected_state)"
    by blast
  from idle silence d hide lists calls show ?thesis
    by blast
qed

subsection \<open>Event routing\<close>

text \<open>
  Claim C7. A message-arrival event when no message surface exists creates exactly
  one surface, targets the tab of the event's conversation and shows the surface. A
  message-arrival event when the surface exists reuses it: no surface is created, the
  tabs it already has are kept, and the tab of the new conversation becomes the
  current one. Two such events for different conversations therefore leave one
  surface with both tabs, the second one current. An event that is not a
  message-arrival event leaves the widget unchanged.
\<close>

theorem message_events_open_tabs:
  "(messages_dialog s = None \<longrightarrow>
      on_event (ChatMessageEvent c1) s =
        s\<lparr>messages_dialog :=
             Some ((new_conversations s)
                     \<lparr>msg_tabs := [c1], msg_current := Some c1, msg_visible := True\<rparr>),
           effects := effects s @ [ESurfaceNew, ESurfaceShow]\<rparr>) \<and>
   (messages_dialog s = Some d \<longrightarrow>
      on_event (ChatMessageEvent c2) s =
        s\<lparr>messages_dialog :=
             Some (d\<lparr>msg_tabs := (if c2 \<in> set (msg_tabs d) then msg_tabs d
                                   else msg_tabs d @ [c2]),
                     msg_current := Some c2, msg_visible := True\<rparr>),
           effects := effects s @ [ESurfaceShow]\<rparr>) \<and>
   (messages_dialog s = None \<and> c1 \<noteq> c2 \<longrightarrow>
      on_event (ChatMessageEvent c2) (on_event (ChatMessageEvent c1) s) =
        s\<lparr>messages_dialog :=
             Some ((new_conversations s)
                     \<lparr>msg_tabs := [c1, c2], msg_current := Some c2, msg_visible := True\<rparr>),
           effects := effects s @ [ESurfaceNew, ESurfaceShow, ESurfaceShow]\<rparr>) \<and>
   (\<not> is_chat_message ev \<longrightarrow> on_event ev s = s)"
  by (simp add: on_event_def set_conv_tab_def emit_def new_conversations_def Let_def)

theorem message_events_open_tabs_witness:
  "messages_dialog connected_state = None \<and> ''C1'' \<noteq> ''C2'' \<and>
   on_event (ChatMessageEvent ''C2'') (on_event (ChatMessageEvent ''C1'') connected_state) =
     connected_state
       \<lparr>messages_dialog :=
          Some ((new_conversations connected_state)
                  \<lparr>msg_tabs := [''C1'', ''C2''], msg_current := Some ''C2'', msg_visible := True\<rparr>),
        effects := effects connected_state @ [ESurfaceNew, ESurfaceShow, ESurfaceShow]\<rparr> \<and>
   \<not> is_chat_message (RenameEvent ''C1'') \<and>
   on_event (RenameEvent ''C1'') connected_state = connected_state \<and>
   (\<exists>d. messages_dialog chatting_state = Some d \<and>
      on_event (ChatMessageEvent ''C2'') chatting_state =
        chatting_state\<lparr>messages_dialog :=
             Some (d\<lparr>msg_tabs := (if ''C2'' \<in> set (msg_tabs d) then msg_tabs d
                                   else msg_tabs d @ [''C2'']),
                     msg_current := Some ''C2'', msg_visible := True\<rparr>),
           effects := effects chatting_state @ [ESurfaceShow]\<rparr>)"
proof -
  have none: "messages_dialog connected_state = None"
    by (simp add: connected_state_fields)
  obtain d where d: "messages_dialog chatting_state = Some d"
    using chatting_state_fields(2) by blast
  note th1 = message_events_open_tabs
    [where s = connected_state and ?c1.0 = "''C1''" and ?c2.0 = "''C2''"
       and ev = "RenameEvent ''C1''" and d = d]
  note th2 = message_events_open_tabs
    [where s = chatting_state and ?c1.0 = "''C1''" and ?c2.0 = "''C2''"
       and ev = "RenameEvent ''C1''" and d = d]
  have ne: "''C1'' \<noteq> ''C2''" by simp
  have other: "\<not> is_chat_message (RenameEvent ''C1'')" by simp
  from th1 none ne have two: "on_event (ChatMessageEvent ''C2'')
      (on_event (ChatMessageEvent ''C1'') connected_state) =
     connected_state
       \<lparr>messages_dialog :=
          Some ((new_conversations connected_state)
                  \<lparr>msg_tabs := [''C1'', ''C2''], msg_current := Some ''C2'', msg_visible := True\<rparr>),
        effects := effects connected_state @ [ESurfaceNew, ESurfaceShow, ESurfaceShow]\<rparr>"
    by blast
  from th1 other have skip: "on_event (RenameEvent ''C1'') connected_state = connected_state"
    by blast
  from th2 d have reuse: "on_event (ChatMessageEvent ''C2'') chatting_state =
        chatting_state\<lparr>messages_dialog :=
             Some (d\<lparr>msg_tabs := (if ''C2'' \<in> set (msg_tabs d) then msg_tabs d
                                   else msg_tabs d @ [''C2'']),
                     msg_current := Some ''C2'', msg_visible := True\<rparr>),
           effects := effects chatting_state @ [ESurfaceShow]\<rparr>"
    by blast
  from none ne other two skip d reuse show ?thesis
    by blast
qed

subsection \<open>Settings and authentication\<close>

text \<open>
  Claim C8. An accepted settings change while the session is running (client
  present) performs exactly one \<^verbatim>\<open>hangups_stop\<close>, which returns with the session
  closed, followed by exactly one \<^verbatim>\<open>hangups_start\<close> on the closed session. While
  the session is not running, neither is invoked; a rejected dialog changes nothing.
\<close>

theorem settings_change_reconnects:
  "(hangups_running s \<and> client s = Some c \<longrightarrow>
      (\<exists>s1. hangups_stop (set_language a s) = Done s1 \<and> \<not> hangups_running s1 \<and>
            client s1 = None \<and> settings a True s = hangups_start a s1) \<and>
      session_calls (effects (state_of (settings a True s))) =
        session_calls (effects s) @ [EDisconnect c, EGetAuth (cookies_path s)]) \<and>
   (\<not> hangups_running s \<longrightarrow>
      settings a True s = Done (set_language a s) \<and>
      session_calls (effects (state_of (settings a True s))) = session_calls (effects s)) \<and>
   settings a False s = Done s"
proof -
  have running: "(\<exists>s1. hangups_stop (set_language a s) = Done s1 \<and> \<not> hangups_running s1 \<and>
            client s1 = None \<and> settings a True s = hangups_start a s1) \<and>
      session_calls (effects (state_of (settings a True s))) =
        session_calls (effects s) @ [EDisconnect c, EGetAuth (cookies_path s)]"
    if r: "hangups_running s" and c: "client s = Some c"
  proof -
    let ?s0 = "set_language a s"
    have r0: "hangups_running ?s0" and c0: "client ?s0 = Some c"
      and e0: "effects ?s0 = effects s" and p0: "cookies_path ?s0 = cookies_path s"
      using r c by (simp_all add: set_language_def Let_def)
    obtain s1 where s1: "hangups_stop ?s0 = Done s1" "\<not> hangups_running s1" "client s1 = None"
      using c0 by (auto simp: hangups_stop_def update_status_def emit_def Let_def)
    have e1: "effects s1 = effects s @ [EDisconnect c]"
      using effects_hangups_stop [OF c0] s1(1) e0 by simp
    have p1: "cookies_path s1 = cookies_path s"
      using s1(1) c0 p0 by (auto simp: hangups_stop_def update_status_def emit_def Let_def)
    have eq: "settings a True s = hangups_start a s1"
      using r0 s1(1) by (simp add: settings_def Let_def)
    have "session_calls (effects (state_of (settings a True s))) =
        session_calls (effects s) @ [EDisconnect c, EGetAuth (cookies_path s)]"
      unfolding eq by (simp add: session_calls_hangups_start e1 p1)
    with s1 eq show ?thesis by blast
  qed
  have idle: "settings a True s = Done (set_language a s) \<and>
      session_calls (effects (state_of (settings a True s))) = session_calls (effects s)"
    if "\<not> hangups_running s"
    using that by (simp add: settings_def set_language_def Let_def)
  have rejected: "settings a False s = Done s"
    by (simp add: settings_def)
  from running idle rejected show ?thesis by blast
qed

theorem settings_change_reconnects_witness:
  "hangups_running connected_state \<and> client connected_state = Some the_client \<and>
   (\<exists>s1. hangups_stop (set_language env_relogin connected_state) = Done s1 \<and>
         \<not> hangups_running s1 \<and> client s1 = None \<and>
         settings env_relogin True connected_state = hangups_start env_relogin s1) \<and>
   session_calls (effects (state_of (settings env_relogin True connected_state))) =
     session_calls (effects connected_state) @ [EDisconnect the_client, EGetAuth ''cookies.json''] \<and>
   \<not> hangups_running disconnected_state \<and>
   settings env_relogin True disconnected_state = Done (set_language env_relogin disconnected_state) \<and>
   session_calls (effects (state_of (settings env_relogin True disconnected_state))) =
     session_calls (effects disconnected_state)"
proof -
  have d: "\<not> hangups_running disconnected_state"
    by (simp add: disconnected_state_eval)
  have r: "hangups_running connected_state" and c: "client connected_state = Some the_client"
    and p: "cookies_path connected_state = ''cookies.json''"
    by (simp_all add: connected_state_fields)
  note th1 = settings_change_reconnects
    [where s = connected_state and c = the_client and a = env_relogin]
  note th2 = settings_change_reconnects
    [where s = disconnected_state and c = the_client and a = env_relogin]
  from th1 r c have stop_start:
    "\<exists>s1. hangups_stop (set_language env_relogin connected_state) = Done s1 \<and>
         \<not> hangups_running s1 \<and> client s1 = None \<and>
         settings env_relogin True connected_state = hangups_start env_relogin s1"
    by blast
  from th1 r c have "session_calls (effects (state_of (settings env_relogin True connected_state))) =
     session_calls (effects connected_state) @
       [EDisconnect the_client, EGetAuth (cookies_path connected_state)]"
    by blast
  then have calls: "session_calls (effects (state_of (settings env_relogin True connected_state))) =
     session_calls (effects connected_state) @ [EDisconnect the_client, EGetAuth ''cookies.json'']"
    by (simp only: p)
  from th2 d have idle: "settings env_relogin True disconnected_state =
      Done (set_language env_relogin disconnected_state)"
    by blast
  from th2 d have idle_calls:
    "session_calls (effects (state_of (settings env_relogin True disconnected_state))) =
     session_calls (effects disconnected_state)"
    by blast
  from r c stop_start calls d idle idle_calls show ?thesis
    by blast
qed


text \<open>
  The callbacks return \<^verbatim>\<open>False\<close> exactly when the user cancels a prompt, and
  \<^verbatim>\<open>hangups_start\<close> stays silent on every outcome of the library that is an abort.
\<close>

lemma callbacks_return_False_on_cancel:
  "(get_credentials u = PyFalse) = (\<not> (snd (email_reply u) \<and> snd (password_reply u)))"
  "(get_pin u = PyFalse) = (\<not> snd (pin_reply u))"
  by (auto simp: get_credentials_def get_pin_def split: prod.splits)

lemma hangups_start_abort:
  assumes "abort_outcome (fst (get_auth (auth a) (user a)))"
  shows "hangups_start a s = Done (emit (EGetAuth (cookies_path s)) s) \<or>
         (\<exists>e. e \<noteq> GoogleAuthError \<and>
              hangups_start a s = Raise e (emit (EGetAuth (cookies_path s)) s))"
  using assms
  by (cases "fst (get_auth (auth a) (user a))")
     (simp_all add: hangups_start_def login_def Let_def)

text \<open>
  Claim C9, as amended. A cancelled credential or PIN prompt reaches the
  authentication library as the value \<^verbatim>\<open>False\<close> returned by the callback; what the
  widget does next is decided by the outcome of the library alone. When the library
  ends in an abort (no cookies and no \<^verbatim>\<open>GoogleAuthError\<close>), \<^verbatim>\<open>hangups_start\<close> only
  records the call to the library: no warning box is shown, no client is allocated,
  no observer is registered and every attribute of the widget is as before. When the
  library ends in \<^verbatim>\<open>GoogleAuthError\<close>, also in answer to a cancelled prompt, the
  warning box is shown as for wrong credentials, and nothing else changes.
\<close>

theorem cancelled_login_follows_library_outcome:
  "(user_cancelled (auth a) (user a) \<longrightarrow>
      (CredentialsCallback \<in> set (snd (get_auth (auth a) (user a))) \<and>
         get_credentials (user a) = PyFalse) \<or>
      (PinCallback \<in> set (snd (get_auth (auth a) (user a))) \<and> get_pin (user a) = PyFalse)) \<and>
   (abort_outcome (fst (get_auth (auth a) (user a))) \<longrightarrow>
      (hangups_start a s = Done (emit (EGetAuth (cookies_path s)) s) \<or>
       (\<exists>e. e \<noteq> GoogleAuthError \<and>
            hangups_start a s = Raise e (emit (EGetAuth (cookies_path s)) s))) \<and>
      EWarning \<notin> set (drop (length (effects s)) (effects (state_of (hangups_start a s))))) \<and>
   (fst (get_auth (auth a) (user a)) = AuthRaises GoogleAuthError \<longrightarrow>
      hangups_start a s = Done (emit EWarning (emit (EGetAuth (cookies_path s)) s)))"
proof -
  have handed: "(CredentialsCallback \<in> set (snd (get_auth (auth a) (user a))) \<and>
         get_credentials (user a) = PyFalse) \<or>
      (PinCallback \<in> set (snd (get_auth (auth a) (user a))) \<and> get_pin (user a) = PyFalse)"
    if "user_cancelled (auth a) (user a)"
    using that by (simp add: user_cancelled_def callbacks_return_False_on_cancel)
  have silent: "(hangups_start a s = Done (emit (EGetAuth (cookies_path s)) s) \<or>
       (\<exists>e. e \<noteq> GoogleAuthError \<and>
            hangups_start a s = Raise e (emit (EGetAuth (cookies_path s)) s))) \<and>
      EWarning \<notin> set (drop (length (effects s)) (effects (state_of (hangups_start a s))))"
    if "abort_outcome (fst (get_auth (auth a) (user a)))"
  proof -
    from that have r: "hangups_start a s = Done (emit (EGetAuth (cookies_path s)) s) \<or>
         (\<exists>e. e \<noteq> GoogleAuthError \<and>
              hangups_start a s = Raise e (emit (EGetAuth (cookies_path s)) s))"
      by (rule hangups_start_abort)
    then have "state_of (hangups_start a s) = emit (EGetAuth (cookies_path s)) s"
      by auto
    then have "EWarning \<notin> set (drop (length (effects s)) (effects (state_of (hangups_start a s))))"
      by (simp add: emit_def)
    with r show ?thesis by blast
  qed
  have warned: "hangups_start a s = Done (emit EWarning (emit (EGetAuth (cookies_path s)) s))"
    if "fst (get_auth (auth a) (user a)) = AuthRaises GoogleAuthError"
    using that by (simp add: hangups_start_def login_def Let_def)
  from handed silent warned show ?thesis by blast
qed

lemma run_cancel:
  "get_auth (auth env_cancel) (user env_cancel) =
     (AuthRaises (OtherException ''TypeError''), [CredentialsCallback])"
  by (simp add: env_cancel_def env_ok_def submitting_flow_def cancelling_user_def
        get_credentials_def get_pin_def)

lemma run_cancel_pin:
  "get_auth (auth env_cancel_pin) (user env_cancel_pin) =
     (AuthRaises GoogleAuthError, [CredentialsCallback, PinCallback])"
  by (simp add: env_cancel_pin_def env_ok_def submitting_flow_def get_credentials_def
        get_pin_def)

lemma run_wrong_pin:
  "get_auth (auth env_wrong_pin) (user env_wrong_pin) =
     (AuthRaises GoogleAuthError, [CredentialsCallback, PinCallback])"
  by (simp add: env_wrong_pin_def env_ok_def submitting_flow_def get_credentials_def
        get_pin_def)

text \<open>
  Claim C9 as stated fails. The user confirms email and password and cancels the PIN
  prompt; \<^verbatim>\<open>get_pin\<close> returns \<^verbatim>\<open>False\<close>, the library submits it as the PIN and is
  refused with \<^verbatim>\<open>GoogleAuthError\<close>, and \<^verbatim>\<open>login\<close> shows the warning box.
\<close>

theorem cancelled_pin_shows_warning:
  "snd (email_reply (user env_cancel_pin)) \<and> snd (password_reply (user env_cancel_pin)) \<and>
   \<not> snd (pin_reply (user env_cancel_pin)) \<and>
   snd (get_auth (auth env_cancel_pin) (user env_cancel_pin)) =
     [CredentialsCallback, PinCallback] \<and>
   get_pin (user env_cancel_pin) = PyFalse \<and>
   user_cancelled (auth env_cancel_pin) (user env_cancel_pin) \<and>
   hangups_start env_cancel_pin disconnected_state =
     Done (emit EWarning (emit (EGetAuth ''cookies.json'') disconnected_state)) \<and>
   EWarning \<in> set (effects (state_of (hangups_start env_cancel_pin disconnected_state)))"
proof -
  have u: "snd (email_reply (user env_cancel_pin))" "snd (password_reply (user env_cancel_pin))"
    "\<not> snd (pin_reply (user env_cancel_pin))"
    by (simp_all add: env_cancel_pin_def env_ok_def)
  have p: "get_pin (user env_cancel_pin) = PyFalse"
    by (simp add: env_cancel_pin_def env_ok_def get_pin_def)
  have c: "user_cancelled (auth env_cancel_pin) (user env_cancel_pin)"
    using u by (simp add: user_cancelled_def run_cancel_pin)
  have h: "hangups_start env_cancel_pin disconnected_state =
     Done (emit EWarning (emit (EGetAuth ''cookies.json'') disconnected_state))"
    by (simp add: hangups_start_def login_def run_cancel_pin Let_def disconnected_state_eval)
  have w: "EWarning \<in> set (effects (state_of (hangups_start env_cancel_pin disconnected_state)))"
    unfolding h by (simp add: emit_def)
  from u p c h w show ?thesis
    by (simp add: run_cancel_pin)
qed

theorem cancelled_login_follows_library_outcome_witness:
  "user_cancelled (auth env_cancel) (user env_cancel) \<and>
   CredentialsCallback \<in> set (snd (get_auth (auth env_cancel) (user env_cancel))) \<and>
   get_credentials (user env_cancel) = PyFalse \<and>
   abort_outcome (fst (get_auth (auth env_cancel) (user env_cancel))) \<and>
   hangups_start env_cancel disconnected_state =
     Raise (OtherException ''TypeError'') (emit (EGetAuth ''cookies.json'') disconnected_state) \<and>
   EWarning \<notin> set (drop (length (effects disconnected_state))
     (effects (state_of (hangups_start env_cancel disconnected_state)))) \<and>
   fst (get_auth (auth env_wrong_pin) (user env_wrong_pin)) = AuthRaises GoogleAuthError \<and>
   hangups_start env_wrong_pin disconnected_state =
     Done (emit EWarning (emit (EGetAuth ''cookies.json'') disconnected_state))"
proof -
  have u: "\<not> snd (password_reply (user env_cancel))"
    by (simp add: env_cancel_def cancelling_user_def)
  have c: "user_cancelled (auth env_cancel) (user env_cancel)"
    using u by (simp add: user_cancelled_def run_cancel)
  have called: "CredentialsCallback \<in> set (snd (get_auth (auth env_cancel) (user env_cancel)))"
    by (simp add: run_cancel)
  have ab: "abort_outcome (fst (get_auth (auth env_cancel) (user env_cancel)))"
    by (simp add: run_cancel)
  have w: "fst (get_auth (auth env_wrong_pin) (user env_wrong_pin)) = AuthRaises GoogleAuthError"
    by (simp add: run_wrong_pin)
  have path: "cookies_path disconnected_state = ''cookies.json''"
    by (simp add: disconnected_state_eval)
  have pin_ok: "get_pin (user env_cancel) \<noteq> PyFalse \<or>
      PinCallback \<notin> set (snd (get_auth (auth env_cancel) (user env_cancel)))"
    by (simp add: run_cancel)
  note th1 = cancelled_login_follows_library_outcome
    [where a = env_cancel and s = disconnected_state]
  note th2 = cancelled_login_follows_library_outcome
    [where a = env_wrong_pin and s = disconnected_state]
  from th1 c pin_ok have f: "get_credentials (user env_cancel) = PyFalse"
    by blast
  from th1 ab have "hangups_start env_cancel disconnected_state =
        Done (emit (EGetAuth (cookies_path disconnected_state)) disconnected_state) \<or>
       (\<exists>e. e \<noteq> GoogleAuthError \<and> hangups_start env_cancel disconnected_state =
          Raise e (emit (EGetAuth (cookies_path disconnected_state)) disconnected_state))"
    by blast
  moreover have "\<exists>s'. hangups_start env_cancel disconnected_state =
      Raise (OtherException ''TypeError'') s'"
    by (simp add: hangups_start_def login_def run_cancel Let_def)
  ultimately have silent: "hangups_start env_cancel disconnected_state =
      Raise (OtherException ''TypeError'') (emit (EGetAuth ''cookies.json'') disconnected_state)"
    unfolding path by auto
  from th1 ab have quiet: "EWarning \<notin> set (drop (length (effects disconnected_state))
     (effects (state_of (hangups_start env_cancel disconnected_state))))"
    by blast
  from th2 w have "hangups_start env_wrong_pin disconnected_state =
     Done (emit EWarning (emit (EGetAuth (cookies_path disconnected_state)) disconnected_state))"
    by blast
  then have warned: "hangups_start env_wrong_pin disconnected_state =
     Done (emit EWarning (emit (EGetAuth ''cookies.json'') disconnected_state))"
    by (simp only: path)
  from c called f ab silent quiet w warned show ?thesis by blast
qed

text \<open>
  Claim C10. A tray-icon activation whose reason is not \<^verbatim>\<open>Trigger\<close> leaves the
  widget exactly as it was: the double-click timer is neither started nor stopped,
  and no connection or visibility action is taken (no effect is logged).
\<close>

theorem icon_activated_other_reason_is_noop:
  "r \<noteq> Trigger \<Longrightarrow> icon_activated a r s = Done s"
  by (simp add: icon_activated_def)

theorem icon_activated_other_reason_is_noop_witness:
  "Context \<noteq> Trigger \<and> icon_activated env_click1 Context connected_state = Done connected_state \<and>
   MiddleClick \<noteq> Trigger \<and> icon_activated env_click1 MiddleClick connected_state = Done connected_state"
  using icon_activated_other_reason_is_noop [of Context env_click1 connected_state]
        icon_activated_other_reason_is_noop [of MiddleClick env_click1 connected_state]
  by simp

end
